theory Spec2Isabelle
  imports Complex_Main
begin

section \<open>Python values as used by pybotz\<close>

text \<open>
  The program is Python 2 (\<^verbatim>\<open>print\<close> statements, \<^verbatim>\<open>except E, e\<close>, no
  \<^verbatim>\<open>from __future__ import division\<close>).  A sensor value is dynamically typed: an
  integer, a float or a string.  Floats are modelled by exact rationals: rounding, infinities
  and NaN are outside the model.
\<close>

datatype pyval = PInt int | PFloat rat | PStr string

datatype pyerr = TypeError | AttributeError | ZeroDivisionError

text \<open>The numeric reading of a value, where it has one.\<close>

fun num_of :: "pyval \<Rightarrow> rat option" where
  "num_of (PInt i) = Some (of_int i)"
| "num_of (PFloat r) = Some r"
| "num_of (PStr s) = None"

text \<open>
  \<^verbatim>\<open>==\<close>: numbers compare by numeric value across int and float, strings by content,
  a number never equals a string.
\<close>

fun py_eq :: "pyval \<Rightarrow> pyval \<Rightarrow> bool" where
  "py_eq (PStr a) (PStr b) = (a = b)"
| "py_eq (PStr a) b = False"
| "py_eq a (PStr b) = False"
| "py_eq (PInt a) (PInt b) = (a = b)"
| "py_eq (PInt a) (PFloat b) = (of_int a = b)"
| "py_eq (PFloat a) (PInt b) = (a = of_int b)"
| "py_eq (PFloat a) (PFloat b) = (a = b)"

definition py_ne :: "pyval \<Rightarrow> pyval \<Rightarrow> bool" where
  "py_ne a b = (\<not> py_eq a b)"

text \<open>Strings are ordered lexicographically by character code.\<close>

fun str_lt :: "string \<Rightarrow> string \<Rightarrow> bool" where
  "str_lt [] [] = False"
| "str_lt [] (y # ys) = True"
| "str_lt (x # xs) [] = False"
| "str_lt (x # xs) (y # ys) =
     (if (of_char x :: nat) < of_char y then True
      else if x = y then str_lt xs ys
      else False)"

text \<open>
  \<^verbatim>\<open><\<close> and \<^verbatim>\<open>></\<close> in Python 2: numbers compare numerically, strings
  lexicographically, and in a mixed comparison every number is smaller than every string.
\<close>

fun py_lt :: "pyval \<Rightarrow> pyval \<Rightarrow> bool" where
  "py_lt (PStr a) (PStr b) = str_lt a b"
| "py_lt (PStr a) b = False"
| "py_lt a (PStr b) = True"
| "py_lt (PInt a) (PInt b) = (a < b)"
| "py_lt (PInt a) (PFloat b) = (of_int a < b)"
| "py_lt (PFloat a) (PInt b) = (a < of_int b)"
| "py_lt (PFloat a) (PFloat b) = (a < b)"

definition py_gt :: "pyval \<Rightarrow> pyval \<Rightarrow> bool" where
  "py_gt a b = py_lt b a"

text \<open>
  \<^verbatim>\<open>*\<close>: numeric product (an int only when both operands are ints); a string times
  an int repeats the string (no copy at all for a count below one); a string times a float or
  a string raises TypeError.
\<close>

fun py_mul :: "pyval \<Rightarrow> pyval \<Rightarrow> pyerr + pyval" where
  "py_mul (PInt a) (PInt b) = Inr (PInt (a * b))"
| "py_mul (PInt a) (PFloat b) = Inr (PFloat (of_int a * b))"
| "py_mul (PFloat a) (PInt b) = Inr (PFloat (a * of_int b))"
| "py_mul (PFloat a) (PFloat b) = Inr (PFloat (a * b))"
| "py_mul (PStr s) (PInt n) = Inr (PStr (concat (replicate (nat n) s)))"
| "py_mul (PInt n) (PStr s) = Inr (PStr (concat (replicate (nat n) s)))"
| "py_mul (PStr s) (PFloat b) = Inl TypeError"
| "py_mul (PFloat a) (PStr s) = Inl TypeError"
| "py_mul (PStr s) (PStr t) = Inl TypeError"

text \<open>\<^verbatim>\<open>+\<close>: numeric sum, or concatenation of two strings; mixed operands raise.\<close>

fun py_add :: "pyval \<Rightarrow> pyval \<Rightarrow> pyerr + pyval" where
  "py_add (PInt a) (PInt b) = Inr (PInt (a + b))"
| "py_add (PInt a) (PFloat b) = Inr (PFloat (of_int a + b))"
| "py_add (PFloat a) (PInt b) = Inr (PFloat (a + of_int b))"
| "py_add (PFloat a) (PFloat b) = Inr (PFloat (a + b))"
| "py_add (PStr s) (PStr t) = Inr (PStr (s @ t))"
| "py_add (PStr s) b = Inl TypeError"
| "py_add a (PStr t) = Inl TypeError"

text \<open>\<^verbatim>\<open>-\<close>: numeric difference; any string operand raises.\<close>

fun py_sub :: "pyval \<Rightarrow> pyval \<Rightarrow> pyerr + pyval" where
  "py_sub (PInt a) (PInt b) = Inr (PInt (a - b))"
| "py_sub (PInt a) (PFloat b) = Inr (PFloat (of_int a - b))"
| "py_sub (PFloat a) (PInt b) = Inr (PFloat (a - of_int b))"
| "py_sub (PFloat a) (PFloat b) = Inr (PFloat (a - b))"
| "py_sub (PStr s) b = Inl TypeError"
| "py_sub a (PStr t) = Inl TypeError"

subsection \<open>The conversions \<^verbatim>\<open>int(s)\<close> and \<^verbatim>\<open>float(s)\<close> of a string\<close>

text \<open>
  Both strip surrounding whitespace and accept an optional sign.  \<^verbatim>\<open>int\<close> then wants
  decimal digits only; \<^verbatim>\<open>float\<close> wants digits with an optional fraction and an optional
  exponent.  The spellings of infinity and NaN, which \<^verbatim>\<open>float\<close> also accepts, have no
  rational value and are not recognised here.  \<open>None\<close> stands for ValueError.
\<close>

definition is_space :: "char \<Rightarrow> bool" where
  "is_space c = ((of_char c :: nat) = 32 \<or> (9 \<le> (of_char c :: nat) \<and> (of_char c :: nat) \<le> 13))"

definition strip :: "string \<Rightarrow> string" where
  "strip s = rev (dropWhile is_space (rev (dropWhile is_space s)))"

definition is_digit :: "char \<Rightarrow> bool" where
  "is_digit c = (48 \<le> (of_char c :: nat) \<and> (of_char c :: nat) \<le> 57)"

definition digits_val :: "string \<Rightarrow> int" where
  "digits_val ds = foldl (\<lambda>a c. 10 * a + (int (of_char c) - 48)) 0 ds"

definition split_sign :: "string \<Rightarrow> int \<times> string" where
  "split_sign s =
     (case s of
        [] \<Rightarrow> (1, [])
      | c # cs \<Rightarrow>
          if c = CHR ''-'' then (- 1, cs)
          else if c = CHR ''+'' then (1, cs)
          else (1, s))"

definition int_of_string :: "string \<Rightarrow> int option" where
  "int_of_string s =
     (case split_sign (strip s) of
        (sg, body) \<Rightarrow>
          if body \<noteq> [] \<and> list_all is_digit body then Some (sg * digits_val body) else None)"

definition pow10 :: "int \<Rightarrow> rat" where
  "pow10 e = (if 0 \<le> e then 10 ^ nat e else 1 / 10 ^ nat (- e))"

definition exponent_of :: "string \<Rightarrow> int option" where
  "exponent_of s =
     (case s of
        [] \<Rightarrow> Some 0
      | c # cs \<Rightarrow>
          if c = CHR ''e'' \<or> c = CHR ''E'' then
            (case split_sign cs of
               (sg, ds) \<Rightarrow>
                 if ds \<noteq> [] \<and> list_all is_digit ds then Some (sg * digits_val ds) else None)
          else None)"

definition float_of_string :: "string \<Rightarrow> rat option" where
  "float_of_string s =
     (case split_sign (strip s) of
        (sg, body) \<Rightarrow>
          let ip = takeWhile is_digit body;
              r1 = dropWhile is_digit body;
              fp = (case r1 of
                      [] \<Rightarrow> []
                    | c # cs \<Rightarrow> if c = CHR ''.'' then takeWhile is_digit cs else []);
              r2 = (case r1 of
                      [] \<Rightarrow> []
                    | c # cs \<Rightarrow> if c = CHR ''.'' then dropWhile is_digit cs else r1)
          in if ip = [] \<and> fp = [] then None
             else (case exponent_of r2 of
                     None \<Rightarrow> None
                   | Some e \<Rightarrow>
                       Some (of_int sg * of_int (digits_val (ip @ fp))
                             * pow10 (e - int (length fp)))))"

section \<open>SensorReading\<close>

text \<open>
  Times are \<^verbatim>\<open>datetime\<close> values, counted in microseconds from a fixed origin; the
  year range of \<^verbatim>\<open>datetime\<close> is not modelled.  A \<^verbatim>\<open>timedelta\<close> is a number of
  microseconds of its own type.
\<close>

type_synonym datetime = int

datatype timedelta = Timedelta int

fun micros :: "timedelta \<Rightarrow> int" where
  "micros (Timedelta n) = n"

definition timedelta_seconds :: "int \<Rightarrow> timedelta" where
  \<comment> \<open>\<^verbatim>\<open>timedelta(0, seconds)\<close>\<close>
  "timedelta_seconds s = Timedelta (s * 1000000)"

definition dt_add :: "datetime \<Rightarrow> timedelta \<Rightarrow> datetime" where
  "dt_add t d = t + micros d"

definition dt_diff :: "datetime \<Rightarrow> datetime \<Rightarrow> timedelta" where
  "dt_diff a b = Timedelta (a - b)"

definition td_add :: "timedelta \<Rightarrow> timedelta \<Rightarrow> timedelta" where
  "td_add a b = Timedelta (micros a + micros b)"

definition td_div :: "timedelta \<Rightarrow> int \<Rightarrow> pyerr + timedelta" where
  \<comment> \<open>\<^verbatim>\<open>timedelta / int\<close> in Python 2: the floor, in whole microseconds\<close>
  "td_div a n = (if n = 0 then Inl ZeroDivisionError else Inr (Timedelta (micros a div n)))"

definition timedelta_eq_int :: "timedelta \<Rightarrow> int \<Rightarrow> bool" where
  \<comment> \<open>\<^verbatim>\<open>timedelta == int\<close>: \<^verbatim>\<open>timedelta\<close> answers an equality test against an
      object that is not a \<^verbatim>\<open>timedelta\<close> with False, whatever the two hold\<close>
  "timedelta_eq_int d n = False"

definition total_seconds :: "timedelta \<Rightarrow> pyval" where
  "total_seconds d = PFloat (of_int (micros d) / 1000000)"

text \<open>
  \<open>sensor_value\<close> is the stored \<^verbatim>\<open>_sensor_value\<close>: text as scraped, an int after the
  remapping of binary states, or a float set by \<^verbatim>\<open>set\<close>.  \<open>sensor_condition\<close> is
  \<open>None\<close> for a plain SensorReading and \<open>Some c\<close> for an NBSensorReading.
\<close>

record SensorReading =
  ts :: datetime
  display_prefix :: "string option"
  sensor_key :: string
  sensor_value :: pyval
  sensor_condition :: "string option"

definition "value" :: "SensorReading \<Rightarrow> pyval" where
  "value r =
     (case sensor_value r of
        PFloat f \<Rightarrow> PFloat f
      | PInt i \<Rightarrow> PInt i
      | PStr s \<Rightarrow>
          (case int_of_string s of
             Some i \<Rightarrow> PInt i
           | None \<Rightarrow>
               (case float_of_string s of
                  Some f \<Rightarrow> PFloat f
                | None \<Rightarrow> PStr s)))"

definition key :: "SensorReading \<Rightarrow> string" where
  "key r = sensor_key r"

section \<open>SensorChecker\<close>

definition default_interval :: int where
  "default_interval = 10 * 60"

definition default_threshold :: pyval where
  "default_threshold = PFloat (1 / 2)"

definition self_report_interval_config :: int where
  "self_report_interval_config = 15 * 60"

record SensorChecker =
  sensor_name :: string
  next_check_time :: datetime
  poll_interval :: timedelta
  alert_threshold :: pyval
  current_reading :: "SensorReading option"
  previous_reading :: "SensorReading option"

text \<open>
  The constructor reads the clock and one row \<open>(interval, threshold)\<close> of the
  configuration database, either of which may be NULL.  The interval is a number of seconds;
  the threshold is taken as the database driver hands it over, here an int or a float.
\<close>

definition SensorChecker_init ::
  "string \<Rightarrow> datetime \<Rightarrow> int option \<Rightarrow> pyval option \<Rightarrow> SensorChecker" where
  "SensorChecker_init nm now interval threshold =
     \<lparr> sensor_name = nm,
       next_check_time = now,
       poll_interval =
         (case interval of
            Some i \<Rightarrow> timedelta_seconds i
          | None \<Rightarrow> timedelta_seconds default_interval),
       alert_threshold =
         (case threshold of
            Some t \<Rightarrow> t
          | None \<Rightarrow> default_threshold),
       current_reading = None,
       previous_reading = None \<rparr>"

text \<open>
  The predicates return True, False or nothing (\<^verbatim>\<open>None\<close>, when control falls off the
  end of the function); the callers test them for truth.
\<close>

fun truthy :: "bool option \<Rightarrow> bool" where
  "truthy (Some b) = b"
| "truthy None = False"

definition needs_check :: "SensorChecker \<Rightarrow> datetime \<Rightarrow> bool option" where
  "needs_check s now =
     (if timedelta_eq_int (poll_interval s) 0 \<or> now > next_check_time s
      then Some True else None)"

text \<open>
  \<^verbatim>\<open>re.match(r"N\/A", str(v))\<close>: the text of \<open>v\<close> begins with N/A.  The text of
  a number never begins with a capital N.
\<close>

definition matches_NA :: "pyval \<Rightarrow> bool" where
  "matches_NA v = (case v of PStr s \<Rightarrow> take 3 s = ''N/A'' | _ \<Rightarrow> False)"

definition exceeds_threshold :: "SensorChecker \<Rightarrow> SensorReading \<Rightarrow> pyerr + bool option" where
  "exceeds_threshold s new_reading =
     (if py_eq (alert_threshold s) (PInt 0) then Inr (Some False)
      else case current_reading s of
        None \<Rightarrow> Inr (Some True)
      | Some cur \<Rightarrow>
          if matches_NA (value new_reading) then Inr (Some False)
          else
            (case py_mul (value cur) (alert_threshold s) of
               Inl e \<Rightarrow> Inl e
             | Inr p \<Rightarrow>
                 (case py_add (value cur) p of
                    Inl e \<Rightarrow> Inl e
                  | Inr hi \<Rightarrow>
                      if py_gt (value new_reading) hi then Inr (Some True)
                      else
                        (case py_mul (value cur) (alert_threshold s) of
                           Inl e \<Rightarrow> Inl e
                         | Inr q \<Rightarrow>
                             (case py_sub (value cur) q of
                                Inl e \<Rightarrow> Inl e
                              | Inr lo \<Rightarrow>
                                  if py_lt (value new_reading) lo then Inr (Some True)
                                  else Inr None)))))"

definition update :: "SensorChecker \<Rightarrow> SensorReading \<Rightarrow> SensorChecker" where
  "update s new_reading =
     s\<lparr> previous_reading := current_reading s,
        current_reading := Some new_reading,
        next_check_time := dt_add (next_check_time s) (poll_interval s) \<rparr>"

definition get_data_update :: "SensorChecker \<Rightarrow> pyerr + SensorReading option" where
  "get_data_update s =
     (case previous_reading s of
        None \<Rightarrow> Inr (current_reading s)
      | Some prev \<Rightarrow>
          (case current_reading s of
             None \<Rightarrow> Inl AttributeError
           | Some cur \<Rightarrow>
               if py_ne (value cur) (value prev) then Inr (Some cur) else Inr None))"

section \<open>SensorModuleChecker\<close>

text \<open>
  One row of the sensor table as \<^verbatim>\<open>load_from_HTML\<close> leaves it: the key, the stored
  value (text, or 0/1 for a remapped binary state) and the condition.
\<close>

record nb_row =
  row_key :: string
  row_value :: pyval
  row_condition :: string

text \<open>
  What the network gives one sweep: \<^verbatim>\<open>urlopen\<close> raises URLError, or
  \<^verbatim>\<open>read\<close> raises IOError, or the page arrives.  A page is the list of its sensor
  rows after the header row, \<open>None\<close> for a row on which \<^verbatim>\<open>NBSensorReading\<close> raises
  AttributeError.  Other failures of the HTML parser are not modelled.
\<close>

datatype fetch_result = URLError | ReadTimeout | Page "nb_row option list"

text \<open>
  The readings of \<^verbatim>\<open>datetime.now()\<close> during one sweep, one field for each place
  that reads the clock: the start and end of the retrieval, \<^verbatim>\<open>needs_check\<close> of the
  sensor at each position of the sensor list, the test for a due self-report, the two
  self-report readings and the restart of the self-report interval.
\<close>

record clock =
  t_start :: datetime
  t_html :: datetime
  t_needs_check :: "nat \<Rightarrow> datetime"
  t_report :: datetime
  t_failure_rate :: datetime
  t_avg_poll :: datetime
  t_reset :: datetime

text \<open>
  \<open>avg_poll_td\<close> is the attribute \<^verbatim>\<open>_avg_poll_time\<close>; the method of the same name
  is \<open>avg_poll_time\<close> below.
\<close>

record SensorModuleChecker =
  sensors :: "SensorChecker list"
  display_name :: string
  html :: "nb_row option list option"
  html_ts :: "datetime option"
  avg_poll_td :: "timedelta option"
  poll_failure_count :: int
  poll_success_count :: int
  next_self_report :: datetime
  self_report_interval :: timedelta

definition init_selfrpt_interval :: "SensorModuleChecker \<Rightarrow> datetime \<Rightarrow> SensorModuleChecker" where
  "init_selfrpt_interval m now =
     m\<lparr> avg_poll_td := None,
        poll_failure_count := 0,
        poll_success_count := 0,
        next_self_report := dt_add now (self_report_interval m) \<rparr>"

text \<open>
  The constructor, given the sensors it built from the configuration database and the clock
  reading of \<^verbatim>\<open>_init_selfrpt_interval\<close>.
\<close>

definition SensorModuleChecker_init ::
  "string \<Rightarrow> SensorChecker list \<Rightarrow> datetime \<Rightarrow> SensorModuleChecker" where
  "SensorModuleChecker_init dn ss now =
     init_selfrpt_interval
       \<lparr> sensors = ss,
         display_name = dn,
         html = None,
         html_ts = None,
         avg_poll_td = None,
         poll_failure_count = 0,
         poll_success_count = 0,
         next_self_report = 0,
         self_report_interval = timedelta_seconds self_report_interval_config \<rparr>
       now"

definition record_poll_run ::
  "SensorModuleChecker \<Rightarrow> datetime \<Rightarrow> datetime \<Rightarrow> pyerr + SensorModuleChecker" where
  "record_poll_run m start end =
     (let m1 = m\<lparr> poll_success_count := poll_success_count m + 1 \<rparr> in
      case avg_poll_td m1 of
        None \<Rightarrow> Inr (m1\<lparr> avg_poll_td := Some (dt_diff end start) \<rparr>)
      | Some avg \<Rightarrow>
          (case td_div (td_add avg (dt_diff end start)) (poll_success_count m1) of
             Inl e \<Rightarrow> Inl e
           | Inr q \<Rightarrow> Inr (m1\<lparr> avg_poll_td := Some q \<rparr>)))"

definition retrieve_HTML ::
  "SensorModuleChecker \<Rightarrow> fetch_result \<Rightarrow> clock \<Rightarrow> pyerr + SensorModuleChecker" where
  "retrieve_HTML m f clk =
     (let m0 = m\<lparr> html := None \<rparr> in
      case f of
        URLError \<Rightarrow>
          Inr (m0\<lparr> poll_failure_count := poll_failure_count m0 + 1, html := None \<rparr>)
      | ReadTimeout \<Rightarrow>
          Inr (m0\<lparr> poll_failure_count := poll_failure_count m0 + 1, html := None \<rparr>)
      | Page rows \<Rightarrow>
          record_poll_run (m0\<lparr> html := Some rows, html_ts := Some (t_html clk) \<rparr>)
            (t_start clk) (t_html clk))"

text \<open>The method \<^verbatim>\<open>avg_poll_time\<close>, as \<^verbatim>\<open>total_seconds\<close> computes it.\<close>

definition avg_poll_time :: "SensorModuleChecker \<Rightarrow> pyerr + pyval" where
  "avg_poll_time m =
     (case avg_poll_td m of
        None \<Rightarrow> Inl AttributeError
      | Some td \<Rightarrow> Inr (total_seconds td))"

text \<open>A plain SensorReading made by the constructor followed by \<^verbatim>\<open>set\<close>.\<close>

definition SensorReading_set ::
  "datetime \<Rightarrow> string \<Rightarrow> string \<Rightarrow> pyval \<Rightarrow> SensorReading" where
  "SensorReading_set t prefix k v =
     \<lparr> ts = t,
       display_prefix = (if prefix = [] then None else Some prefix),
       sensor_key = k,
       sensor_value = v,
       sensor_condition = None \<rparr>"

definition NBSensorReading :: "datetime \<Rightarrow> nb_row \<Rightarrow> string \<Rightarrow> SensorReading" where
  "NBSensorReading t row prefix =
     \<lparr> ts = t,
       display_prefix = (if prefix = [] then None else Some prefix),
       sensor_key = row_key row,
       sensor_value = row_value row,
       sensor_condition = Some (row_condition row) \<rparr>"

text \<open>
  \<^verbatim>\<open>float(self._poll_failure_count / total)\<close>: the quotient of two ints is taken
  first, and in Python 2 that is the floor of the fraction; \<^verbatim>\<open>float\<close> converts the
  resulting int.
\<close>

definition self_report ::
  "SensorModuleChecker \<Rightarrow> clock \<Rightarrow> pyerr + (SensorModuleChecker \<times> SensorReading list)" where
  "self_report m clk =
     (let total = poll_success_count m + poll_failure_count m;
          r1 = (if total > 0
                then [SensorReading_set (t_failure_rate clk) (display_name m @ ''-'')
                        ''poll_failure_rate''
                        (PFloat (of_int (poll_failure_count m div total)))]
                else [])
      in if poll_success_count m > 0 then
           (case avg_poll_time m of
              Inl e \<Rightarrow> Inl e
            | Inr v \<Rightarrow>
                Inr (init_selfrpt_interval m (t_reset clk),
                     r1 @ [SensorReading_set (t_avg_poll clk) (display_name m @ ''-'')
                             ''avg_html_retrieval'' v]))
         else Inr (init_selfrpt_interval m (t_reset clk), r1))"

text \<open>
  The dictionary \<^verbatim>\<open>sensorReadings\<close>: rows in page order, a later row replacing an
  earlier one of the same key, a row that does not parse left out.
\<close>

definition add_row ::
  "datetime \<Rightarrow> string \<Rightarrow> (string \<rightharpoonup> SensorReading) \<Rightarrow> nb_row option
     \<Rightarrow> (string \<rightharpoonup> SensorReading)" where
  "add_row t prefix d row =
     (case row of
        None \<Rightarrow> d
      | Some rw \<Rightarrow> d(key (NBSensorReading t rw prefix) \<mapsto> NBSensorReading t rw prefix))"

definition sensorReadings ::
  "datetime \<Rightarrow> string \<Rightarrow> nb_row option list \<Rightarrow> (string \<rightharpoonup> SensorReading)" where
  "sensorReadings t prefix rows = foldl (add_row t prefix) Map.empty rows"

text \<open>
  The loop over the module's sensors; \<open>i\<close> is the position of the first sensor of the list.
  An object of these classes is always true, so the test of the reading itself and of the
  reading returned by \<^verbatim>\<open>get_data_update\<close> only ask whether there is one.
\<close>

fun check_sensors ::
  "(string \<rightharpoonup> SensorReading) \<Rightarrow> (nat \<Rightarrow> datetime) \<Rightarrow> nat \<Rightarrow> SensorChecker list
     \<Rightarrow> pyerr + (SensorChecker list \<times> SensorReading list)" where
  "check_sensors d tc i [] = Inr ([], [])"
| "check_sensors d tc i (s # ss) =
     (case d (sensor_name s) of
        None \<Rightarrow>
          (case check_sensors d tc (Suc i) ss of
             Inl e \<Rightarrow> Inl e
           | Inr (ss', al) \<Rightarrow> Inr (s # ss', al))
      | Some r \<Rightarrow>
          (case (if truthy (needs_check s (tc i)) then Inr True
                 else (case exceeds_threshold s r of
                         Inl e \<Rightarrow> Inl e
                       | Inr b \<Rightarrow> Inr (truthy b))) of
             Inl e \<Rightarrow> Inl e
           | Inr False \<Rightarrow>
               (case check_sensors d tc (Suc i) ss of
                  Inl e \<Rightarrow> Inl e
                | Inr (ss', al) \<Rightarrow> Inr (s # ss', al))
           | Inr True \<Rightarrow>
               (case get_data_update (update s r) of
                  Inl e \<Rightarrow> Inl e
                | Inr sr \<Rightarrow>
                    (case check_sensors d tc (Suc i) ss of
                       Inl e \<Rightarrow> Inl e
                     | Inr (ss', al) \<Rightarrow>
                         Inr (update s r # ss',
                              (case sr of None \<Rightarrow> [] | Some x \<Rightarrow> [x]) @ al)))))"

definition check ::
  "SensorModuleChecker \<Rightarrow> fetch_result \<Rightarrow> clock
     \<Rightarrow> pyerr + (SensorModuleChecker \<times> SensorReading list)" where
  "check m f clk =
     (case retrieve_HTML m f clk of
        Inl e \<Rightarrow> Inl e
      | Inr m1 \<Rightarrow>
          (case html m1 of
             None \<Rightarrow> Inr (m1, [])
           | Some rows \<Rightarrow>
               (case check_sensors
                       (sensorReadings (t_html clk) (display_name m1 @ ''-'') rows)
                       (t_needs_check clk) 0 (sensors m1) of
                  Inl e \<Rightarrow> Inl e
                | Inr (ss, new_alerts) \<Rightarrow>
                    if t_report clk > next_self_report m1 then
                      (case self_report (m1\<lparr> sensors := ss \<rparr>) clk of
                         Inl e \<Rightarrow> Inl e
                       | Inr (m2, r) \<Rightarrow> Inr (m2, new_alerts @ r))
                    else Inr (m1\<lparr> sensors := ss \<rparr>, new_alerts))))"

text \<open>
  A driver calling \<^verbatim>\<open>check\<close> once for each sweep of a list, collecting what each
  call returns; an exception ends the run.
\<close>

fun run ::
  "SensorModuleChecker \<Rightarrow> (fetch_result \<times> clock) list
     \<Rightarrow> pyerr + (SensorModuleChecker \<times> SensorReading list list)" where
  "run m [] = Inr (m, [])"
| "run m ((f, clk) # rest) =
     (case check m f clk of
        Inl e \<Rightarrow> Inl e
      | Inr (m1, out) \<Rightarrow>
          (case run m1 rest of
             Inl e \<Rightarrow> Inl e
           | Inr (m2, outs) \<Rightarrow> Inr (m2, out # outs)))"

section \<open>Example states\<close>

text \<open>
  A Temperature row with a given stored value, the reading made from it, a sensor holding a
  current reading (not due before 600 seconds), a clock whose readings after the start of the
  retrieval all coincide, and a module of one Temperature sensor with the default interval
  and threshold, built at time 0.
\<close>

definition ex_row :: "pyval \<Rightarrow> nb_row" where
  "ex_row v = \<lparr> row_key = ''Temperature'', row_value = v, row_condition = [] \<rparr>"

definition ex_reading :: "datetime \<Rightarrow> pyval \<Rightarrow> SensorReading" where
  "ex_reading t v = NBSensorReading t (ex_row v) ''pod-''"

definition ex_sensor :: "pyval \<Rightarrow> pyval \<Rightarrow> SensorChecker" where
  "ex_sensor thr cur =
     (SensorChecker_init ''Temperature'' 0 None (Some thr))
       \<lparr> current_reading := Some (ex_reading 0 cur),
          next_check_time := 600000000 \<rparr>"

definition ex_clock :: "datetime \<Rightarrow> datetime \<Rightarrow> clock" where
  "ex_clock st en =
     \<lparr> t_start = st, t_html = en, t_needs_check = (\<lambda>i. en), t_report = en,
       t_failure_rate = en, t_avg_poll = en, t_reset = en \<rparr>"

definition ex_module :: SensorModuleChecker where
  "ex_module =
     SensorModuleChecker_init ''pod'' [SensorChecker_init ''Temperature'' 0 None None] 0"

definition ex_counts :: "int \<Rightarrow> int \<Rightarrow> SensorModuleChecker" where
  "ex_counts f s =
     ex_module\<lparr> poll_failure_count := f, poll_success_count := s,
                avg_poll_td := Some (timedelta_seconds 15) \<rparr>"

definition ex_sweeps :: "(fetch_result \<times> clock) list" where
  "ex_sweeps =
     [(Page [Some (ex_row (PStr ''72''))], ex_clock 1000000 2000000),
      (URLError, ex_clock 60000000 61000000),
      (Page [Some (ex_row (PStr ''75''))], ex_clock 700000000 701000000),
      (Page [Some (ex_row (PStr ''75''))], ex_clock 899000000 900000000)]"

definition ex_three_polls :: "(fetch_result \<times> clock) list" where
  "ex_three_polls =
     [(Page [], ex_clock 0 10000000),
      (Page [], ex_clock 100000000 120000000),
      (Page [], ex_clock 200000000 230000000)]"

section \<open>Arithmetic on numeric values\<close>







section \<open>SensorChecker: due, threshold, update, alert\<close>

lemma needs_check_eq:
  "needs_check s now = (if now > next_check_time s then Some True else None)"
  by (simp add: needs_check_def timedelta_eq_int_def)





text \<open>
  C4 fails on the code at its own special case.  \<^verbatim>\<open>_poll_interval\<close> is a
  \<^verbatim>\<open>timedelta\<close>, and the test \<^verbatim>\<open>self._poll_interval == 0\<close> compares it with
  an int, which is never equal: a sensor configured with interval 0 whose
  \<^verbatim>\<open>_next_check_time\<close> is not in the past is not due.  That time is the local
  wall-clock time of the construction, so a clock that is set back afterwards (at the end of
  daylight saving time, for one) gives such a reading.
\<close>

theorem needs_check_zero_interval_not_due:
  "poll_interval (SensorChecker_init ''Door'' 100 (Some 0) None) = Timedelta 0
   \<and> next_check_time (SensorChecker_init ''Door'' 100 (Some 0) None) = 100
   \<and> needs_check (SensorChecker_init ''Door'' 100 (Some 0) None) 100 = None"
  by code_simp

text \<open>
  C5, as the claim states it, fails: a previous reading holding the int 1 and a candidate
  holding the text \<^verbatim>\<open>"1"\<close> differ only in type, yet \<^verbatim>\<open>value()\<close> turns the text into
  the int 1, the two compare equal and no alert is returned.  Likewise the texts
  \<^verbatim>\<open>"1"\<close> and \<^verbatim>\<open>"1.0"\<close> become the int 1 and the float 1.0, which differ only in
  type and compare equal.
\<close>

theorem get_data_update_type_counterexample:
  "sensor_value (ex_reading 0 (PInt 1)) = PInt 1
   \<and> sensor_value (ex_reading 5 (PStr ''1'')) = PStr ''1''
   \<and> get_data_update
       (update (ex_sensor (PFloat (1 / 2)) (PInt 1)) (ex_reading 5 (PStr ''1''))) = Inr None
   \<and> value (ex_reading 0 (PStr ''1'')) = PInt 1
   \<and> value (ex_reading 5 (PStr ''1.0'')) = PFloat 1
   \<and> get_data_update
       (update (ex_sensor (PFloat (1 / 2)) (PStr ''1'')) (ex_reading 5 (PStr ''1.0'')))
       = Inr None"
  by code_simp

text \<open>
  C5, amended: after \<^verbatim>\<open>update\<close> with a candidate, \<^verbatim>\<open>get_data_update\<close> returns
  nothing exactly when there was a reading before and \<^verbatim>\<open>value()\<close> of the candidate
  equals \<^verbatim>\<open>value()\<close> of that reading, and returns the candidate otherwise.
  \<^verbatim>\<open>value()\<close> converts text that reads as a number, so the int 1 and the text
  \<^verbatim>\<open>"1"\<close> are the same value, and numbers are equal across int and float; a number and
  a text that is no number always differ.
\<close>

theorem get_data_update_after_update:
  "get_data_update (update s r) =
     Inr (case current_reading s of
            None \<Rightarrow> Some r
          | Some p \<Rightarrow> if py_eq (value r) (value p) then None else Some r)
   \<and> value (ex_reading 5 (PStr ''1'')) = PInt 1
   \<and> py_eq (PInt 1) (PFloat 1)
   \<and> (num_of a = Some x \<longrightarrow> \<not> py_eq a (PStr w))"
proof -
  have upd: "get_data_update (update s r) =
     Inr (case current_reading s of
            None \<Rightarrow> Some r
          | Some p \<Rightarrow> if py_eq (value r) (value p) then None else Some r)"
    by (simp add: get_data_update_def update_def py_ne_def split: option.splits)
  have conv: "value (ex_reading 5 (PStr ''1'')) = PInt 1"
    by code_simp
  have mixed: "num_of a = Some x \<longrightarrow> \<not> py_eq a (PStr w)"
    by (cases a) simp_all
  from upd conv mixed show ?thesis by simp
qed

text \<open>
  The last part of C5 at concrete inputs: the int 72 is a number and differs from the text
  N/A.
\<close>

theorem get_data_update_after_update_witness:
  "num_of (PInt 72) = Some 72 \<and> \<not> py_eq (PInt 72) (PStr ''N/A'')"
  using get_data_update_after_update [of _ _ "PInt 72" 72 "''N/A''"] by simp

text \<open>
  C6, as the claim states it, fails for a configuration with threshold 0: the test for a zero
  threshold comes before the test for a first reading, so the first candidate does not
  exceed the threshold.
\<close>

theorem first_reading_zero_threshold_counterexample:
  "current_reading (SensorChecker_init ''Temperature'' 0 None (Some (PInt 0))) = None
   \<and> exceeds_threshold (SensorChecker_init ''Temperature'' 0 None (Some (PInt 0)))
       (ex_reading 5 (PStr ''72'')) = Inr (Some False)"
  by code_simp

text \<open>
  C6, amended: for a sensor without a current reading, the first candidate exceeds the
  threshold exactly when the configured threshold is not zero, and for every configuration
  \<^verbatim>\<open>get_data_update\<close> after \<^verbatim>\<open>update\<close> returns that first reading.
\<close>

theorem first_reading_reported:
  "current_reading s = None \<Longrightarrow>
     exceeds_threshold s r = Inr (Some (\<not> py_eq (alert_threshold s) (PInt 0)))
     \<and> get_data_update (update s r) = Inr (Some r)"
  by (simp add: exceeds_threshold_def get_data_update_def update_def)

text \<open>C6 at a freshly constructed sensor with the default threshold.\<close>

theorem first_reading_reported_witness:
  "current_reading (SensorChecker_init ''Temperature'' 0 None None) = None
   \<and> exceeds_threshold (SensorChecker_init ''Temperature'' 0 None None)
       (ex_reading 5 (PStr ''72'')) = Inr (Some True)
   \<and> get_data_update (update (SensorChecker_init ''Temperature'' 0 None None)
       (ex_reading 5 (PStr ''72''))) = Inr (Some (ex_reading 5 (PStr ''72'')))"
proof -
  have h: "current_reading (SensorChecker_init ''Temperature'' 0 None None) = None"
    by code_simp
  have z: "\<not> py_eq (alert_threshold (SensorChecker_init ''Temperature'' 0 None None)) (PInt 0)"
    by code_simp
  show ?thesis
    using h z first_reading_reported [OF h, of "ex_reading 5 (PStr ''72'')"] by simp
qed

text \<open>
  C7 fails on the code.  Only the candidate is tested for the N/A sentinel.  A sensor whose
  current reading is an accepted N/A and whose next candidate is a number reaches
  \<^verbatim>\<open>"N/A" * 0.5\<close>, which raises TypeError; the exception leaves \<^verbatim>\<open>check\<close>.
  The second fact is that course of events for a module: a first sweep that reads N/A and a
  second, before the sensor is due again, that reads 72.
\<close>

theorem exceeds_threshold_current_NA_raises:
  "exceeds_threshold (ex_sensor (PFloat (1 / 2)) (PStr ''N/A'')) (ex_reading 5 (PStr ''72''))
     = Inl TypeError
   \<and> run ex_module
       [(Page [Some (ex_row (PStr ''N/A''))], ex_clock 1000000 2000000),
        (Page [Some (ex_row (PStr ''72''))], ex_clock 60000000 61000000)]
     = Inl TypeError"
  by code_simp

lemma foldl_update_time:
  "next_check_time (foldl update s rs)
     = next_check_time s + int (length rs) * micros (poll_interval s)
   \<and> poll_interval (foldl update s rs) = poll_interval s"
  by (induction rs arbitrary: s) (simp_all add: update_def dt_add_def algebra_simps)

text \<open>
  C8: \<^verbatim>\<open>update\<close> moves \<^verbatim>\<open>_next_check_time\<close> to its own earlier value plus the
  poll interval and leaves the interval alone; it reads no clock.  So after any number of
  updates the time is the first one plus that many intervals, whenever the updates happened.
\<close>

theorem update_next_check_time:
  "next_check_time (update s r) = dt_add (next_check_time s) (poll_interval s)
   \<and> dt_add (next_check_time s) (poll_interval s) = next_check_time s + micros (poll_interval s)
   \<and> poll_interval (update s r) = poll_interval s
   \<and> next_check_time (foldl update s rs)
       = next_check_time s + int (length rs) * micros (poll_interval s)"
  using foldl_update_time [of s rs] by (simp add: update_def dt_add_def)

section \<open>SensorModuleChecker: retrieval, statistics, self-report\<close>

text \<open>
  C1, as the claim states it, fails: a module whose self-report is due and whose fetch fails
  returns the empty list, although \<^verbatim>\<open>_self_report\<close> in the state it is left in would
  produce a failure-rate reading.
\<close>

theorem check_failure_skips_self_report_counterexample:
  "check ex_module URLError (ex_clock 900000001 900000002)
     = Inr (ex_module\<lparr> poll_failure_count := 1 \<rparr>, [])
   \<and> t_report (ex_clock 900000001 900000002)
       > next_self_report (ex_module\<lparr> poll_failure_count := 1 \<rparr>)
   \<and> self_report (ex_module\<lparr> poll_failure_count := 1 \<rparr>) (ex_clock 900000001 900000002)
     = Inr (init_selfrpt_interval ex_module 900000002,
            [SensorReading_set 900000002 ''pod-'' ''poll_failure_rate'' (PFloat 1)])"
  by code_simp

text \<open>
  C1, amended: when the fetch fails, by URLError or by the read timeout, \<^verbatim>\<open>check\<close>
  adds exactly one to the failure count and returns the empty list, with no sensor reading
  and no self-report reading; the sensors, the success count, the average and the time of the
  next self-report are left as they were.
\<close>

theorem check_fetch_failure:
  "check m URLError clk
     = Inr (m\<lparr> html := None, poll_failure_count := poll_failure_count m + 1 \<rparr>, [])
   \<and> check m ReadTimeout clk
     = Inr (m\<lparr> html := None, poll_failure_count := poll_failure_count m + 1 \<rparr>, [])"
  by (simp add: check_def retrieve_HTML_def)

text \<open>
  C2 fails on the code: with one failure and two successes the reported
  \<^verbatim>\<open>poll_failure_rate\<close> is 0.0, the floor of 1/3 turned into a float, not 1/3.
\<close>

theorem self_report_failure_rate_floor:
  "poll_failure_count (ex_counts 1 2) = 1
   \<and> poll_success_count (ex_counts 1 2) = 2
   \<and> self_report (ex_counts 1 2) (ex_clock 900000001 900000002)
     = Inr (init_selfrpt_interval ex_module 900000002,
            [SensorReading_set 900000002 ''pod-'' ''poll_failure_rate'' (PFloat 0),
             SensorReading_set 900000002 ''pod-'' ''avg_html_retrieval'' (PFloat 15)])"
  by code_simp

lemma self_report_failure_rate:
  assumes "poll_success_count m + poll_failure_count m > 0"
    and "self_report m clk = Inr (m', rs)"
  shows "sensor_key (hd rs) = ''poll_failure_rate''
         \<and> sensor_value (hd rs)
             = PFloat (of_int (poll_failure_count m
                                 div (poll_success_count m + poll_failure_count m)))"
  using assms
  by (auto simp: self_report_def Let_def SensorReading_set_def split: if_splits sum.splits)

text \<open>
  The floor is 0 as soon as one poll succeeded, and 1 when every poll failed.
\<close>

lemma failure_rate_floor_values:
  "0 \<le> f \<Longrightarrow> 0 < s \<Longrightarrow> f div (s + f) = (0::int)"
  "0 < f \<Longrightarrow> f div (0 + f) = (1::int)"
  by simp_all

lemma retrieve_HTML_counts:
  assumes "0 \<le> poll_success_count m" and "0 \<le> poll_failure_count m"
    and "retrieve_HTML m f clk = Inr m1"
  shows "0 \<le> poll_success_count m1 \<and> 0 \<le> poll_failure_count m1"
  using assms
  by (cases f)
     (auto simp: retrieve_HTML_def record_poll_run_def Let_def split: option.splits sum.splits)

lemma self_report_counts:
  "self_report m clk = Inr (m', rs) \<Longrightarrow> poll_success_count m' = 0 \<and> poll_failure_count m' = 0"
  by (auto simp: self_report_def Let_def init_selfrpt_interval_def split: if_splits sum.splits)

text \<open>The counters never become negative.\<close>

lemma check_counts:
  assumes "0 \<le> poll_success_count m" and "0 \<le> poll_failure_count m"
    and "check m f clk = Inr (m', out)"
  shows "0 \<le> poll_success_count m' \<and> 0 \<le> poll_failure_count m'"
proof -
  from assms(3) obtain m1 where m1: "retrieve_HTML m f clk = Inr m1"
    by (auto simp: check_def split: sum.splits)
  have c1: "0 \<le> poll_success_count m1 \<and> 0 \<le> poll_failure_count m1"
    using assms(1,2) m1 by (rule retrieve_HTML_counts)
  show ?thesis
  proof (cases "html m1")
    case None
    with assms(3) m1 c1 show ?thesis by (auto simp: check_def)
  next
    case (Some rows)
    with assms(3) m1 obtain ss where
      "m' = m1\<lparr> sensors := ss \<rparr> \<or> (\<exists>rs. self_report (m1\<lparr> sensors := ss \<rparr>) clk = Inr (m', rs))"
      by (auto simp: check_def split: sum.splits prod.splits if_splits)
    with c1 show ?thesis by (auto dest: self_report_counts)
  qed
qed

text \<open>
  C9: \<^verbatim>\<open>_record_poll_run\<close> first adds one to the success count; without an average
  the duration becomes the average, and with one the new average is the old one plus the
  duration, divided by the count just incremented (a \<^verbatim>\<open>timedelta\<close> divided by an int,
  in whole microseconds).  Three successful polls of 10, 20 and 30 seconds from a new module
  leave an average of 15 seconds.
\<close>

theorem record_poll_run_recurrence:
  "(avg_poll_td m = None \<longrightarrow>
      record_poll_run m st en =
        Inr (m\<lparr> poll_success_count := poll_success_count m + 1,
                avg_poll_td := Some (dt_diff en st) \<rparr>))
   \<and> (avg_poll_td m = Some avg \<and> 0 \<le> poll_success_count m \<longrightarrow>
      record_poll_run m st en =
        Inr (m\<lparr> poll_success_count := poll_success_count m + 1,
                avg_poll_td := Some (Timedelta ((micros avg + micros (dt_diff en st))
                                                 div (poll_success_count m + 1))) \<rparr>))
   \<and> (case run ex_module ex_three_polls of
         Inl e \<Rightarrow> None
       | Inr (m3, outs) \<Rightarrow> Some (poll_success_count m3, poll_failure_count m3, avg_poll_td m3))
       = Some (3, 0, Some (timedelta_seconds 15))"
proof -
  have first: "avg_poll_td m = None \<longrightarrow>
      record_poll_run m st en =
        Inr (m\<lparr> poll_success_count := poll_success_count m + 1,
                avg_poll_td := Some (dt_diff en st) \<rparr>)"
    by (simp add: record_poll_run_def)
  have later: "avg_poll_td m = Some avg \<and> 0 \<le> poll_success_count m \<longrightarrow>
      record_poll_run m st en =
        Inr (m\<lparr> poll_success_count := poll_success_count m + 1,
                avg_poll_td := Some (Timedelta ((micros avg + micros (dt_diff en st))
                                                 div (poll_success_count m + 1))) \<rparr>)"
    by (simp add: record_poll_run_def td_div_def td_add_def)
  have three: "(case run ex_module ex_three_polls of
         Inl e \<Rightarrow> None
       | Inr (m3, outs) \<Rightarrow> Some (poll_success_count m3, poll_failure_count m3, avg_poll_td m3))
       = Some (3, 0, Some (timedelta_seconds 15))"
    by code_simp
  from first later three show ?thesis by blast
qed

text \<open>
  C9 at concrete inputs: a first poll of 10 seconds on the new module, and a second poll of
  20 seconds on a module with one success and an average of 10 seconds, which gives 15.
\<close>

theorem record_poll_run_recurrence_witness:
  "avg_poll_td ex_module = None
   \<and> record_poll_run ex_module 0 10000000
       = Inr (ex_module\<lparr> poll_success_count := 1, avg_poll_td := Some (Timedelta 10000000) \<rparr>)
   \<and> avg_poll_td (ex_module\<lparr> poll_success_count := 1, avg_poll_td := Some (Timedelta 10000000) \<rparr>)
       = Some (Timedelta 10000000)
   \<and> record_poll_run
       (ex_module\<lparr> poll_success_count := 1, avg_poll_td := Some (Timedelta 10000000) \<rparr>)
       100000000 120000000
       = Inr (ex_module\<lparr> poll_success_count := 2, avg_poll_td := Some (Timedelta 15000000) \<rparr>)"
proof -
  have a: "avg_poll_td ex_module = None"
    by code_simp
  have b: "poll_success_count ex_module = 0"
    by code_simp
  show ?thesis
    using a b
      record_poll_run_recurrence [of ex_module 0 10000000 "Timedelta 0"]
      record_poll_run_recurrence
        [of "ex_module\<lparr> poll_success_count := 1, avg_poll_td := Some (Timedelta 10000000) \<rparr>"
            100000000 120000000 "Timedelta 10000000"]
    by (simp add: dt_diff_def)
qed

section \<open>No self-report before the interval has passed\<close>

lemma get_data_update_of_update:
  "get_data_update (update s r) = Inr sr \<Longrightarrow> sr = None \<or> sr = Some r"
  by (auto simp: get_data_update_def update_def split: option.splits if_splits)

text \<open>Every alert of the sensor loop is a reading of the dictionary.\<close>

lemma check_sensors_alerts:
  "check_sensors d tc i ss = Inr (ss', al) \<Longrightarrow> set al \<subseteq> ran d"
proof (induction ss arbitrary: i ss' al)
  case Nil
  then show ?case by simp
next
  case (Cons s ss)
  show ?case
  proof (cases "d (sensor_name s)")
    case None
    with Cons.prems obtain ss1 where "check_sensors d tc (Suc i) ss = Inr (ss1, al)"
      by (auto split: sum.splits prod.splits)
    then show ?thesis by (rule Cons.IH)
  next
    case (Some r)
    then have r: "r \<in> ran d" by (rule ranI)
    from Cons.prems Some obtain ss1 al1 sr where
      rest: "check_sensors d tc (Suc i) ss = Inr (ss1, al1)"
      and al: "al = al1 \<or> (al = (case sr of None \<Rightarrow> [] | Some x \<Rightarrow> [x]) @ al1
                 \<and> get_data_update (update s r) = Inr sr)"
      by (auto split: sum.splits prod.splits bool.splits if_splits)
    have "set al1 \<subseteq> ran d" using rest by (rule Cons.IH)
    with al r show ?thesis
      by (auto dest: get_data_update_of_update split: option.splits)
  qed
qed

text \<open>
  Seen from the module: a sweep leaves each sensor's poll interval alone, and its
  \<^verbatim>\<open>_next_check_time\<close> either where it was or one interval later.
\<close>

lemma check_sensors_times:
  "check_sensors d tc i ss = Inr (ss', al) \<Longrightarrow>
     list_all2 (\<lambda>s s'. poll_interval s' = poll_interval s \<and>
                  (next_check_time s' = next_check_time s \<or>
                   next_check_time s' = dt_add (next_check_time s) (poll_interval s))) ss ss'"
proof (induction ss arbitrary: i ss' al)
  case Nil
  then show ?case by simp
next
  case (Cons s ss)
  from Cons.prems obtain s1 ss1 al1 where
    rest: "check_sensors d tc (Suc i) ss = Inr (ss1, al1)" and ss': "ss' = s1 # ss1"
    and s1: "s1 = s \<or> (\<exists>r. s1 = update s r)"
    by (auto split: sum.splits prod.splits bool.splits if_splits option.splits)
  from s1 have "poll_interval s1 = poll_interval s \<and>
                  (next_check_time s1 = next_check_time s \<or>
                   next_check_time s1 = dt_add (next_check_time s) (poll_interval s))"
    by (auto simp: update_def)
  with Cons.IH [OF rest] ss' show ?case by simp
qed

lemma add_row_condition:
  "\<forall>r\<in>ran d. sensor_condition r \<noteq> None \<Longrightarrow>
   \<forall>r\<in>ran (add_row t p d row). sensor_condition r \<noteq> None"
  by (cases row) (auto simp: add_row_def ran_def NBSensorReading_def split: if_splits)

lemma foldl_rows_condition:
  "\<forall>r\<in>ran d. sensor_condition r \<noteq> None \<Longrightarrow>
   \<forall>r\<in>ran (foldl (add_row t p) d rows). sensor_condition r \<noteq> None"
proof (induction rows arbitrary: d)
  case Nil
  then show ?case by simp
next
  case (Cons row rows)
  from Cons.prems have "\<forall>r\<in>ran (add_row t p d row). sensor_condition r \<noteq> None"
    by (rule add_row_condition)
  then have "\<forall>r\<in>ran (foldl (add_row t p) (add_row t p d row) rows). sensor_condition r \<noteq> None"
    by (rule Cons.IH)
  then show ?case by simp
qed

lemma sensorReadings_condition:
  "r \<in> ran (sensorReadings t p rows) \<Longrightarrow> sensor_condition r \<noteq> None"
  using foldl_rows_condition [of Map.empty t p rows] by (simp add: sensorReadings_def)

lemma retrieve_HTML_next_self_report:
  "retrieve_HTML m f clk = Inr m1 \<Longrightarrow> next_self_report m1 = next_self_report m"
  by (cases f)
     (auto simp: retrieve_HTML_def record_poll_run_def Let_def split: option.splits sum.splits)

text \<open>
  A sweep at which the self-report is not due keeps the time of the next self-report, and
  all it returns are readings of the page (an NBSensorReading has a condition, a self-report
  reading has none).
\<close>

lemma check_without_report:
  assumes "\<not> t_report clk > next_self_report m" and "check m f clk = Inr (m', out)"
  shows "next_self_report m' = next_self_report m
         \<and> (\<forall>r\<in>set out. sensor_condition r \<noteq> None)"
proof -
  from assms(2) obtain m1 where m1: "retrieve_HTML m f clk = Inr m1"
    by (auto simp: check_def split: sum.splits)
  have n: "next_self_report m1 = next_self_report m"
    using m1 by (rule retrieve_HTML_next_self_report)
  show ?thesis
  proof (cases "html m1")
    case None
    with assms(2) m1 n show ?thesis by (auto simp: check_def)
  next
    case (Some rows)
    with assms m1 n obtain ss where
      cs: "check_sensors (sensorReadings (t_html clk) (display_name m1 @ ''-'') rows)
             (t_needs_check clk) 0 (sensors m1) = Inr (ss, out)"
      and m': "m' = m1\<lparr> sensors := ss \<rparr>"
      by (auto simp: check_def split: sum.splits prod.splits)
    from check_sensors_alerts [OF cs] have "\<forall>r\<in>set out. sensor_condition r \<noteq> None"
      by (blast dest: sensorReadings_condition)
    with m' n show ?thesis by simp
  qed
qed

lemma run_without_report:
  "\<forall>sw\<in>set sweeps. t_report (snd sw) \<le> next_self_report m \<Longrightarrow>
   run m sweeps = Inr (m', outs) \<Longrightarrow>
   next_self_report m' = next_self_report m
   \<and> (\<forall>out\<in>set outs. \<forall>r\<in>set out. sensor_condition r \<noteq> None)"
proof (induction sweeps arbitrary: m outs)
  case Nil
  then show ?case by simp
next
  case (Cons sw sweeps)
  obtain f clk where sw: "sw = (f, clk)" by (cases sw)
  from Cons.prems(2) sw obtain m1 out outs1 where
    c: "check m f clk = Inr (m1, out)" and r: "run m1 sweeps = Inr (m', outs1)"
    and outs: "outs = out # outs1"
    by (auto split: sum.splits prod.splits)
  from Cons.prems(1) sw have "\<not> t_report clk > next_self_report m" by simp
  from check_without_report [OF this c]
  have n1: "next_self_report m1 = next_self_report m"
    and o1: "\<forall>r\<in>set out. sensor_condition r \<noteq> None" by simp_all
  from Cons.prems(1) n1 have "\<forall>sw\<in>set sweeps. t_report (snd sw) \<le> next_self_report m1"
    by simp
  from Cons.IH [OF this r] n1 o1 outs show ?case by simp
qed

text \<open>
  C10: a new module has its next self-report one self-report interval after the clock
  reading of its construction, both counters at zero and no average.  Over any sequence of
  sweeps whose self-report tests all read a time not later than that, however the fetches
  turn out, the time of the next self-report stays where it is and every reading returned is
  a reading of a page: no self-report reading is emitted.
\<close>

theorem no_self_report_before_interval:
  "next_self_report (SensorModuleChecker_init dn ss t0)
     = dt_add t0 (timedelta_seconds self_report_interval_config)
   \<and> poll_success_count (SensorModuleChecker_init dn ss t0) = 0
   \<and> poll_failure_count (SensorModuleChecker_init dn ss t0) = 0
   \<and> avg_poll_td (SensorModuleChecker_init dn ss t0) = None
   \<and> ((\<forall>sw\<in>set sweeps.
          t_report (snd sw) \<le> dt_add t0 (timedelta_seconds self_report_interval_config))
        \<and> run (SensorModuleChecker_init dn ss t0) sweeps = Inr (m', outs)
      \<longrightarrow> next_self_report m' = dt_add t0 (timedelta_seconds self_report_interval_config)
          \<and> (\<forall>out\<in>set outs. \<forall>r\<in>set out. sensor_condition r \<noteq> None))"
proof -
  have n: "next_self_report (SensorModuleChecker_init dn ss t0)
             = dt_add t0 (timedelta_seconds self_report_interval_config)"
    by (simp add: SensorModuleChecker_init_def init_selfrpt_interval_def)
  have stats: "poll_success_count (SensorModuleChecker_init dn ss t0) = 0
     \<and> poll_failure_count (SensorModuleChecker_init dn ss t0) = 0
     \<and> avg_poll_td (SensorModuleChecker_init dn ss t0) = None"
    by (simp add: SensorModuleChecker_init_def init_selfrpt_interval_def)
  show ?thesis
    using n stats run_without_report [of sweeps "SensorModuleChecker_init dn ss t0" m' outs]
    by simp
qed

text \<open>
  C10 at a concrete run of four sweeps within the first 900 seconds, one of them a failed
  fetch: two of them return a Temperature reading, none a self-report reading.
\<close>

theorem no_self_report_before_interval_witness:
  "list_all (\<lambda>sw. t_report (snd sw)
                     \<le> dt_add 0 (timedelta_seconds self_report_interval_config)) ex_sweeps
   \<and> map (map sensor_key) (snd (projr (run ex_module ex_sweeps)))
       = [[''Temperature''], [], [''Temperature''], []]
   \<and> next_self_report (fst (projr (run ex_module ex_sweeps))) = 900000000
   \<and> list_all (list_all (\<lambda>r. sensor_condition r \<noteq> None))
       (snd (projr (run ex_module ex_sweeps)))"
proof -
  have h: "list_all (\<lambda>sw. t_report (snd sw)
                     \<le> dt_add 0 (timedelta_seconds self_report_interval_config)) ex_sweeps"
    by code_simp
  have k: "map (map sensor_key) (snd (projr (run ex_module ex_sweeps)))
             = [[''Temperature''], [], [''Temperature''], []]"
    by code_simp
  have e: "dt_add 0 (timedelta_seconds self_report_interval_config) = 900000000"
    by code_simp
  have r: "run (SensorModuleChecker_init ''pod''
                  [SensorChecker_init ''Temperature'' 0 None None] 0) ex_sweeps
             = Inr (fst (projr (run ex_module ex_sweeps)), snd (projr (run ex_module ex_sweeps)))"
    by code_simp
  show ?thesis
    using h k e r
      no_self_report_before_interval
        [of "''pod''" "[SensorChecker_init ''Temperature'' 0 None None]" 0 ex_sweeps
            "fst (projr (run ex_module ex_sweeps))" "snd (projr (run ex_module ex_sweeps))"]
    by (simp add: list_all_iff)
qed

end
